theory Spec2Isabelle
  imports Complex_Main
begin

section \<open>The frame loop of react-spring: data model\<close>

text \<open>
  The development follows \<^verbatim>\<open>FrameLoop\<close> (the revision with the \<^verbatim>\<open>dt\<close> argument of
  \<^verbatim>\<open>advance\<close> and the five spring methods). JavaScript numbers are idealised as real
  numbers: there is no rounding, no \<^verbatim>\<open>NaN\<close> and no infinity. Wherever the source
  would leave the finite numbers (a zero divisor, the square root of a negative number,
  arithmetic on \<^verbatim>\<open>undefined\<close>) the functions below return \<open>None\<close>: the input is
  outside the idealisation and nothing is stated about it. The guards are on the safe
  side: a \<open>Some\<close> result is the value the source computes over the reals.
  The profiling field \<^verbatim>\<open>animated.performance\<close> and the \<^verbatim>\<open>console.log\<close> calls are left
  out: nothing reads them.
\<close>

datatype jsval = Num real | Str string | Undefined

text \<open>An \<^verbatim>\<open>AnimatedValue\<close> object. Objects live in a store and are named by address,
  since a configuration and a trail may refer to the same object.\<close>

record animated_value =
  a_value :: jsval
  a_done :: bool
  elapsedTime :: real
  lastPosition :: real
  lastVelocity :: "real option"
  tempPosition :: "real option"
  tempVelocity :: "real option"

type_synonym addr = nat
type_synonym store = "addr \<Rightarrow> animated_value"

text \<open>A slot of \<^verbatim>\<open>config.toValues\<close>: a plain value, or an \<^verbatim>\<open>Animated\<close> object (a trail).\<close>

datatype to_slot = ToValue jsval | ToAnimated addr

datatype clamp_cfg = ClampUnset | ClampBool bool | ClampNum real

datatype decay_cfg = DecayUnset | DecayBool bool | DecayNum real

datatype velocity_cfg = VelShared real | VelEach "real list"

text \<open>An \<^verbatim>\<open>ActiveAnimation\<close>. The fields \<open>step\<close> and \<open>method_name\<close> are
  \<^verbatim>\<open>step\<close> and \<^verbatim>\<open>method\<close> of the nested \<^verbatim>\<open>config.config\<close>.\<close>

record config =
  key :: string
  idle :: bool
  animatedValues :: "addr list"
  toValues :: "to_slot list"
  fromValues :: "jsval list"
  immediate :: bool
  initialVelocity :: velocity_cfg
  precision :: "real option"
  duration :: "real option"
  progress :: real
  easing :: "real \<Rightarrow> real"
  decay :: decay_cfg
  tension :: real
  friction :: real
  mass :: real
  clamp :: clamp_cfg
  w0 :: real
  step :: "real option"
  method_name :: string

section \<open>Reading the configuration\<close>

text \<open>An array read past the end gives \<^verbatim>\<open>undefined\<close>.\<close>

definition from_at :: "config \<Rightarrow> nat \<Rightarrow> jsval" where
  "from_at cfg i = (if i < length (fromValues cfg) then fromValues cfg ! i else Undefined)"

definition to_at :: "config \<Rightarrow> nat \<Rightarrow> to_slot" where
  "to_at cfg i = (if i < length (toValues cfg) then toValues cfg ! i else ToValue Undefined)"

text \<open>\<^verbatim>\<open>const target = to instanceof Animated ? to : null\<close>\<close>

definition target_of :: "to_slot \<Rightarrow> addr option" where
  "target_of s = (case s of ToAnimated t \<Rightarrow> Some t | ToValue _ \<Rightarrow> None)"

text \<open>\<^verbatim>\<open>if (target) to = target.getValue()\<close>\<close>

definition resolve_to :: "store \<Rightarrow> to_slot \<Rightarrow> jsval" where
  "resolve_to \<sigma> s = (case s of ToAnimated t \<Rightarrow> a_value (\<sigma> t) | ToValue v \<Rightarrow> v)"

definition is_string :: "jsval \<Rightarrow> bool" where
  "is_string v = (case v of Str _ \<Rightarrow> True | _ \<Rightarrow> False)"

text \<open>\<^verbatim>\<open>Array.isArray(config.initialVelocity) ? config.initialVelocity[i] : config.initialVelocity\<close>;
  a missing array entry is \<^verbatim>\<open>undefined\<close>, outside the numbers.\<close>

definition v0_at :: "config \<Rightarrow> nat \<Rightarrow> real option" where
  "v0_at cfg i =
     (case initialVelocity cfg of
        VelShared v \<Rightarrow> Some v
      | VelEach vs \<Rightarrow> (if i < length vs then Some (vs ! i) else None))"

text \<open>\<^verbatim>\<open>config.precision || Math.min(1, Math.abs(to - from) / 1000)\<close>: an unset precision
  and the number 0 are both falsy.\<close>

definition precision_of :: "config \<Rightarrow> real \<Rightarrow> real \<Rightarrow> real" where
  "precision_of cfg to from =
     (case precision cfg of
        Some p \<Rightarrow> (if p \<noteq> 0 then p else min 1 (\<bar>to - from\<bar> / 1000))
      | None \<Rightarrow> min 1 (\<bar>to - from\<bar> / 1000))"

section \<open>The three motion models\<close>

subsection \<open>Duration easing\<close>

text \<open>\<^verbatim>\<open>Math.min(1, elapsed / config.duration)\<close>. With a zero duration the quotient is
  \<^verbatim>\<open>Infinity\<close> for a positive \<open>elapsed\<close>, and the minimum is 1; for other \<open>elapsed\<close> it
  is \<^verbatim>\<open>NaN\<close> or \<^verbatim>\<open>-Infinity\<close>.\<close>

definition min1_ratio :: "real \<Rightarrow> real \<Rightarrow> real option" where
  "min1_ratio elapsed d =
     (if d \<noteq> 0 then Some (min 1 (elapsed / d))
      else if 0 < elapsed then Some 1
      else None)"

text \<open>The result of a model: position, velocity, the termination condition \<open>finished\<close>
  and the value of the local variable \<open>to\<close> after the model has run.\<close>

record motion =
  m_position :: real
  m_velocity :: real
  m_finished :: bool
  m_to :: real

definition duration_model ::
  "config \<Rightarrow> real \<Rightarrow> real \<Rightarrow> real \<Rightarrow> real \<Rightarrow> real \<Rightarrow> real \<Rightarrow> motion option" where
  "duration_model cfg d dt elapsed lastPos from to =
     (if dt = 0 then None
      else case min1_ratio elapsed d of
        None \<Rightarrow> None
      | Some r \<Rightarrow>
          (let p = progress cfg + (1 - progress cfg) * r;
               position = from + easing cfg p * (to - from);
               velocity = (position - lastPos) / dt
           in Some \<lparr>m_position = position, m_velocity = velocity,
                     m_finished = (p = 1), m_to = to\<rparr>))"

subsection \<open>Decay easing\<close>

text \<open>\<^verbatim>\<open>else if (config.decay)\<close>: \<^verbatim>\<open>true\<close> and a nonzero number are truthy.\<close>

definition decay_on :: "decay_cfg \<Rightarrow> bool" where
  "decay_on d = (case d of DecayUnset \<Rightarrow> False | DecayBool b \<Rightarrow> b | DecayNum r \<Rightarrow> r \<noteq> 0)"

text \<open>\<^verbatim>\<open>config.decay === true ? 0.998 : config.decay\<close>, read only when the decay is truthy.\<close>

definition decay_rate :: "decay_cfg \<Rightarrow> real" where
  "decay_rate d = (case d of DecayNum r \<Rightarrow> r | _ \<Rightarrow> 0.998)"

definition decay_model ::
  "config \<Rightarrow> real \<Rightarrow> real \<Rightarrow> real \<Rightarrow> real \<Rightarrow> real \<Rightarrow> motion option" where
  "decay_model cfg elapsed lastPos v0 from to =
     (let dc = decay_rate (decay cfg) in
      if 1 - dc = 0 then None
      else
        (let e = exp (- (1 - dc) * elapsed);
             position = from + (v0 / (1 - dc)) * (1 - e);
             velocity = v0 * e;
             finished = (\<bar>lastPos - position\<bar> < 0.1)
         in Some \<lparr>m_position = position, m_velocity = velocity,
                   m_finished = finished, m_to = (if finished then position else to)\<rparr>))"

subsection \<open>Spring easing: the five integrators\<close>

text \<open>\<^verbatim>\<open>const configStep = config.config.step || 50\<close> and
  \<^verbatim>\<open>const step = configStep > 20 ? (configStep / config.w0) * 0.001 : configStep\<close>.\<close>

definition config_step :: "config \<Rightarrow> real" where
  "config_step cfg = (case step cfg of Some s \<Rightarrow> (if s \<noteq> 0 then s else 50) | None \<Rightarrow> 50)"

definition step_size :: "config \<Rightarrow> real option" where
  "step_size cfg =
     (if config_step cfg > 20
      then (if w0 cfg = 0 then None else Some ((config_step cfg / w0 cfg) * 0.001))
      else Some (config_step cfg))"

text \<open>\<^verbatim>\<open>const numSteps = Math.ceil(dt / step)\<close>; the loop \<^verbatim>\<open>for (n = 0; n < numSteps; ++n)\<close>
  runs \<open>numSteps\<close> times, and not at all when \<open>numSteps\<close> is not positive.\<close>

definition num_steps :: "real \<Rightarrow> real \<Rightarrow> nat" where
  "num_steps dt stp = nat \<lceil>dt / stp\<rceil>"

text \<open>One sub-step of \<^verbatim>\<open>euler()\<close> on the pair (position, velocity).\<close>

definition euler_step :: "config \<Rightarrow> real \<Rightarrow> real \<Rightarrow> real \<times> real \<Rightarrow> real \<times> real" where
  "euler_step cfg stp to pv =
     (let position = fst pv; velocity = snd pv;
          springForce = - tension cfg * 0.000001 * (position - to);
          dampingForce = - friction cfg * 0.001 * velocity;
          acceleration = (springForce + dampingForce) / mass cfg;
          velocity' = velocity + acceleration * stp;
          position' = position + velocity' * stp
      in (position', velocity'))"

definition euler :: "config \<Rightarrow> real \<Rightarrow> animated_value \<Rightarrow> real \<Rightarrow> real \<Rightarrow> (real \<times> real) option" where
  "euler cfg dt animated v0 to =
     (case step_size cfg of
        None \<Rightarrow> None
      | Some stp \<Rightarrow>
          if mass cfg = 0 then None
          else
            (let velocity = (case lastVelocity animated of Some v \<Rightarrow> v | None \<Rightarrow> v0)
             in Some ((euler_step cfg stp to ^^ num_steps dt stp) (lastPosition animated, velocity))))"

text \<open>One sub-step of \<^verbatim>\<open>verlet()\<close>. The function does not read \<^verbatim>\<open>animated.lastVelocity\<close>:
  it starts from the \<^verbatim>\<open>velocity = 0\<close> that \<^verbatim>\<open>advance\<close> declares.\<close>

definition verlet_step :: "config \<Rightarrow> real \<Rightarrow> real \<Rightarrow> real \<times> real \<Rightarrow> real \<times> real" where
  "verlet_step cfg stp to pv =
     (let position = fst pv; velocity = snd pv;
          velocity' =
            ((1 - (friction cfg * stp) / 2) / (1 + stp / 2)) * velocity +
            (stp / (mass cfg * (1 + (friction cfg * stp) / 2))) *
              (- tension cfg * (position - to)) -
            tension cfg / mass cfg / (1 + (friction cfg * stp) / 2);
          position' = position + velocity' * stp
      in (position', velocity'))"

definition verlet :: "config \<Rightarrow> real \<Rightarrow> animated_value \<Rightarrow> real \<Rightarrow> (real \<times> real) option" where
  "verlet cfg dt animated to =
     (case step_size cfg of
        None \<Rightarrow> None
      | Some stp \<Rightarrow>
          if mass cfg = 0 \<or> 1 + stp / 2 = 0 \<or> 1 + (friction cfg * stp) / 2 = 0 then None
          else Some ((verlet_step cfg stp to ^^ num_steps dt stp) (lastPosition animated, 0)))"

text \<open>One sub-step of \<^verbatim>\<open>rk4()\<close> on (position, velocity, tempPosition, tempVelocity).\<close>

definition rk4_step ::
  "config \<Rightarrow> real \<Rightarrow> real \<Rightarrow> real \<times> real \<times> real \<times> real \<Rightarrow> real \<times> real \<times> real \<times> real" where
  "rk4_step cfg stp to s =
     (case s of (position, velocity, tempPosition0, tempVelocity0) \<Rightarrow>
       (let aVelocity = velocity;
            aAcceleration =
              (tension cfg * (to - tempPosition0) - friction cfg * velocity) / mass cfg;
            tempPosition1 = position + aVelocity * stp * 0.5 * 0.001;
            tempVelocity1 = velocity + aAcceleration * stp * 0.5 * 0.001;
            bVelocity = tempVelocity1;
            bAcceleration =
              (tension cfg * (to - tempPosition1) - friction cfg * tempVelocity1) / mass cfg;
            tempPosition2 = position + bVelocity * stp * 0.5 * 0.001;
            tempVelocity2 = velocity + bAcceleration * stp * 0.5 * 0.001;
            cVelocity = tempVelocity2;
            cAcceleration =
              (tension cfg * (to - tempPosition2) - friction cfg * tempVelocity2) / mass cfg;
            tempPosition3 = position + cVelocity * stp * 0.001;
            tempVelocity3 = velocity + cAcceleration * stp * 0.001;
            dVelocity = tempVelocity3;
            dAcceleration =
              (tension cfg * (to - tempPosition3) - friction cfg * tempVelocity3) / mass cfg;
            dxdt = (1.0 / 6.0) * (aVelocity + 2.0 * (bVelocity + cVelocity) + dVelocity);
            dvdt =
              (1.0 / 6.0) *
              (aAcceleration + 2.0 * (bAcceleration + cAcceleration) + dAcceleration)
        in (position + dxdt * stp * 0.001, velocity + dvdt * stp * 0.001,
            tempPosition3, tempVelocity3)))"

text \<open>\<^verbatim>\<open>animated.tempPosition || position || 0\<close> and \<^verbatim>\<open>animated.tempVelocity || velocity\<close>:
  an unset field and the number 0 are falsy.\<close>

definition or_else :: "real option \<Rightarrow> real \<Rightarrow> real" where
  "or_else x d = (case x of Some v \<Rightarrow> (if v \<noteq> 0 then v else d) | None \<Rightarrow> d)"

definition rk4 ::
  "config \<Rightarrow> real \<Rightarrow> animated_value \<Rightarrow> real \<Rightarrow> real \<Rightarrow> (real \<times> real \<times> real \<times> real) option" where
  "rk4 cfg dt animated v0 to =
     (case step_size cfg of
        None \<Rightarrow> None
      | Some stp \<Rightarrow>
          if mass cfg = 0 then None
          else
            (let position = lastPosition animated;
                 velocity = (case lastVelocity animated of Some v \<Rightarrow> v | None \<Rightarrow> v0);
                 tempPosition0 = or_else (tempPosition animated) (if position \<noteq> 0 then position else 0);
                 tempVelocity0 = or_else (tempVelocity animated) velocity
             in Some ((rk4_step cfg stp to ^^ num_steps dt stp)
                        (position, velocity, tempPosition0, tempVelocity0))))"

text \<open>\<^verbatim>\<open>analytical()\<close>: the closed form, at the elapsed time \<open>t\<close> of the value.\<close>

definition analytical :: "config \<Rightarrow> real \<Rightarrow> real \<Rightarrow> real \<Rightarrow> real \<Rightarrow> (real \<times> real) option" where
  "analytical cfg t v0 from to =
     (let c = friction cfg; m = mass cfg; k = tension cfg; x0 = to - from in
      if m = 0 \<or> k * m \<le> 0 \<or> k / m < 0 then None
      else
        (let zeta = c / (2 * sqrt (k * m));
             w0 = sqrt (k / m) / 1000;
             w1 = w0 * sqrt (1.0 - zeta * zeta);
             w2 = w0 * sqrt (zeta * zeta - 1.0)
         in
         if zeta < 1 then
           (if 1.0 - zeta * zeta \<le> 0 \<or> w1 = 0 then None
            else
              (let envelope = exp (- zeta * w0 * t);
                   position =
                     to - envelope *
                       (((v0 + zeta * w0 * x0) / w1) * sin (w1 * t) + x0 * cos (w1 * t));
                   velocity =
                     zeta * w0 * envelope *
                       ((sin (w1 * t) * (- v0 + zeta * w0 * x0)) / w1 + x0 * cos (w1 * t)) -
                     envelope *
                       (cos (w1 * t) * (- v0 + zeta * w0 * x0) - w1 * x0 * sin (w1 * t))
               in Some (position, velocity)))
         else if zeta = 1 then
           (let envelope = exp (- w0 * t);
                position = to - envelope * (x0 + (- v0 + w0 * x0) * t);
                velocity = envelope * (- v0 * (t * w0 - 1) + t * x0 * (w0 * w0))
            in Some (position, velocity))
         else
           (if w2 = 0 then None
            else
              (let envelope = exp (- zeta * w0 * t);
                   position =
                     to -
                     (envelope *
                       ((v0 + zeta * w0 * x0) * sinh (w2 * t) + w2 * x0 * cosh (w2 * t))) / w2;
                   velocity =
                     (envelope * zeta * w0 *
                       (sinh (w2 * t) * (v0 + zeta * w0 * x0) + x0 * w2 * cosh (w2 * t))) / w2 -
                     (envelope *
                       (w2 * cosh (w2 * t) * (v0 + zeta * w0 * x0) +
                        w2 * w2 * x0 * sinh (w2 * t))) / w2
               in Some (position, velocity)))))"

text \<open>\<^verbatim>\<open>simple()\<close>: the velocity is the difference quotient of the position.\<close>

definition simple ::
  "config \<Rightarrow> real \<Rightarrow> real \<Rightarrow> real \<Rightarrow> real \<Rightarrow> real \<Rightarrow> real \<Rightarrow> (real \<times> real) option" where
  "simple cfg dt t lastPos v0 from to =
     (let c = friction cfg; m = mass cfg; k = tension cfg in
      if dt = 0 \<or> m = 0 \<or> k * m \<le> 0 \<or> k / m < 0 then None
      else
        (let zeta = c / (2 * sqrt (k * m));
             w0 = sqrt (k / m) / 1000;
             x0 = to - from;
             prevPosition = lastPos
         in
         if zeta < 1 then
           (let envelope = exp (- zeta * w0 * t);
                w1 = w0 * sqrt (1.0 - zeta * zeta)
            in
            if 1.0 - zeta * zeta \<le> 0 \<or> w1 = 0 then None
            else
              (let position =
                     to - envelope *
                       (((v0 + zeta * w0 * x0) / w1) * sin (w1 * t) + x0 * cos (w1 * t))
               in Some (position, (position - prevPosition) / dt)))
         else
           (let envelope = exp (- w0 * t);
                position = to - envelope * (x0 + (v0 + w0 * x0) * t)
            in Some (position, (position - prevPosition) / dt))))"

text \<open>The \<^verbatim>\<open>switch (config.config.method)\<close>: position, velocity and the two cached
  fields of the value after the integrator has run. Only \<^verbatim>\<open>rk4()\<close> writes the cache.\<close>

definition integrate ::
  "config \<Rightarrow> real \<Rightarrow> animated_value \<Rightarrow> real \<Rightarrow> real \<Rightarrow> real \<Rightarrow>
     (real \<times> real \<times> real option \<times> real option) option" where
  "integrate cfg dt animated v0 from to =
     (let keep = (\<lambda>pv. (fst pv, snd pv, tempPosition animated, tempVelocity animated)) in
      if method_name cfg = ''analytical'' then
        map_option keep (analytical cfg (elapsedTime animated) v0 from to)
      else if method_name cfg = ''rk4'' then
        map_option (\<lambda>(p, v, tp, tv). (p, v, Some tp, Some tv)) (rk4 cfg dt animated v0 to)
      else if method_name cfg = ''simple'' then
        map_option keep
          (simple cfg dt (elapsedTime animated) (lastPosition animated) v0 from to)
      else if method_name cfg = ''verlet'' then
        map_option keep (verlet cfg dt animated to)
      else
        map_option keep (euler cfg dt animated v0 to))"

subsection \<open>Conditions for stopping the spring animation\<close>

definition isBouncing :: "config \<Rightarrow> real \<Rightarrow> real \<Rightarrow> real \<Rightarrow> real \<Rightarrow> bool" where
  "isBouncing cfg from to position velocity =
     (if clamp cfg \<noteq> ClampBool False \<and> tension cfg \<noteq> 0
      then (if from < to then position > to \<and> velocity > 0
            else position < to \<and> velocity < 0)
      else False)"

text \<open>\<^verbatim>\<open>typeof config.clamp === 'number' ? config.clamp : 0\<close>\<close>

definition clamp_factor :: "clamp_cfg \<Rightarrow> real" where
  "clamp_factor c = (case c of ClampNum r \<Rightarrow> r | _ \<Rightarrow> 0)"

text \<open>The part of the spring branch after the integrator: from the integrated position
  and velocity to the velocity after a bounce and the flag \<open>finished\<close>.\<close>

definition spring_settle ::
  "config \<Rightarrow> real \<Rightarrow> real \<Rightarrow> real \<Rightarrow> real \<Rightarrow> real \<Rightarrow> motion" where
  "spring_settle cfg prec from to position velocity0 =
     (let bouncing = isBouncing cfg from to position velocity0;
          velocity = (if bouncing then - velocity0 * clamp_factor (clamp cfg) else velocity0);
          isVelocity = (\<bar>velocity\<bar> \<le> prec);
          isDisplacement = (if tension cfg \<noteq> 0 then \<bar>to - position\<bar> \<le> prec else True)
      in \<lparr>m_position = position, m_velocity = velocity,
          m_finished = ((bouncing \<and> velocity = 0) \<or> (isVelocity \<and> isDisplacement)),
          m_to = to\<rparr>)"

section \<open>The integrator: \<^verbatim>\<open>advance\<close>\<close>

text \<open>The branch \<^verbatim>\<open>duration != null\<close> / \<^verbatim>\<open>decay\<close> / spring of the numeric path: the
  motion of the value and its two cached fields. \<open>animated\<close> already carries the new
  elapsed time. The duration model does not read \<open>v0\<close>.\<close>

definition run_model ::
  "real \<Rightarrow> config \<Rightarrow> nat \<Rightarrow> animated_value \<Rightarrow> real \<Rightarrow> real \<Rightarrow>
     (motion \<times> real option \<times> real option) option" where
  "run_model dt cfg i animated from to =
     (case duration cfg of
        Some d \<Rightarrow>
          map_option (\<lambda>mo. (mo, tempPosition animated, tempVelocity animated))
            (duration_model cfg d dt (elapsedTime animated) (lastPosition animated) from to)
      | None \<Rightarrow>
          (case v0_at cfg i of
             None \<Rightarrow> None
           | Some v0 \<Rightarrow>
               if decay_on (decay cfg) then
                 map_option (\<lambda>mo. (mo, tempPosition animated, tempVelocity animated))
                   (decay_model cfg (elapsedTime animated) (lastPosition animated) v0 from to)
               else
                 map_option
                   (\<lambda>(p, v, tp, tv).
                      (spring_settle cfg (precision_of cfg to from) from to p v, tp, tv))
                   (integrate cfg dt animated v0 from to)))"

text \<open>\<^verbatim>\<open>target && !target.done\<close>\<close>

definition target_pending :: "store \<Rightarrow> addr option \<Rightarrow> bool" where
  "target_pending \<sigma> target = (case target of Some t \<Rightarrow> \<not> a_done (\<sigma> t) | None \<Rightarrow> False)"

text \<open>Modelled from the spec: \<^verbatim>\<open>AnimatedValue.setValue\<close> is not among the sources; the spec
  has it write the value into the storage of the object, which is all it does here.\<close>

definition setValue :: "jsval \<Rightarrow> animated_value \<Rightarrow> animated_value" where
  "setValue v animated = animated\<lparr>a_value := v\<rparr>"

text \<open>The numeric path of the loop body of \<^verbatim>\<open>advance\<close>, from
  \<^verbatim>\<open>const elapsed = (animated.elapsedTime += dt)\<close> to the end of the body, for the value at
  address \<open>a\<close> with the numbers \<open>from\<close> and \<open>to\<close>. The result is whether the pass set
  \<open>active\<close>, whether it set \<open>changed\<close>, and the store.\<close>

definition advance_numeric ::
  "real \<Rightarrow> config \<Rightarrow> nat \<Rightarrow> store \<Rightarrow> addr \<Rightarrow> addr option \<Rightarrow> real \<Rightarrow> real \<Rightarrow>
     (bool \<times> bool \<times> store) option" where
  "advance_numeric dt cfg i \<sigma> a target from to =
     (let animated = \<sigma> a;
          animated1 = animated\<lparr>elapsedTime := elapsedTime animated + dt\<rparr>
      in
      case run_model dt cfg i animated1 from to of
        None \<Rightarrow> None
      | Some (mo, tp, tv) \<Rightarrow>
          (let fin = (m_finished mo \<and> \<not> target_pending \<sigma> target);
               position =
                 (if fin \<and> a_value animated \<noteq> Num (m_to mo) then m_to mo
                  else m_position mo)
           in Some (\<not> fin, True,
                \<sigma>(a := (setValue (Num position)
                          (animated1\<lparr>a_done := fin, tempPosition := tp,
                                     tempVelocity := tv\<rparr>))
                        \<lparr>lastPosition := position,
                         lastVelocity := Some (m_velocity mo)\<rparr>))))"

text \<open>One pass of the loop body of \<^verbatim>\<open>advance\<close>, for index \<open>i\<close>. A value that is neither
  a string nor a number (\<^verbatim>\<open>undefined\<close>) on the numeric path is outside the numbers.\<close>

definition advance_value ::
  "real \<Rightarrow> config \<Rightarrow> nat \<Rightarrow> store \<Rightarrow> (bool \<times> bool \<times> store) option" where
  "advance_value dt cfg i \<sigma> =
     (let a = animatedValues cfg ! i; animated = \<sigma> a in
      if a_done animated then Some (False, False, \<sigma>)
      else
        (let slot = to_at cfg i;
             target = target_of slot;
             to = resolve_to \<sigma> slot;
             from = from_at cfg i
         in
         if immediate cfg \<or> is_string from \<or> is_string to then
           Some (False, True, \<sigma>(a := (setValue to animated)\<lparr>a_done := True\<rparr>))
         else
           (case (from, to) of
              (Num f, Num t) \<Rightarrow> advance_numeric dt cfg i \<sigma> a target f t
            | _ \<Rightarrow> None)))"

text \<open>The loop \<^verbatim>\<open>for (let i = 0; i < config.animatedValues.length; i++)\<close>, over the list
  of the indices still to visit.\<close>

fun advance_loop ::
  "real \<Rightarrow> config \<Rightarrow> nat list \<Rightarrow> bool \<times> bool \<times> store \<Rightarrow> (bool \<times> bool \<times> store) option" where
  "advance_loop dt cfg [] acc = Some acc"
| "advance_loop dt cfg (i # is) (active, changed, \<sigma>) =
     (case advance_value dt cfg i \<sigma> of
        None \<Rightarrow> None
      | Some (act, chg, \<sigma>') \<Rightarrow> advance_loop dt cfg is (active \<or> act, changed \<or> chg, \<sigma>'))"

type_synonym changes = "(string \<times> jsval list) list"

text \<open>Modelled from the spec: \<^verbatim>\<open>config.animated.getValue()\<close> belongs to the \<^verbatim>\<open>Animated\<close>
  classes, which are not among the sources; the spec calls it the current aggregate
  value of the configuration, here the values of its constituents in order.\<close>

definition aggregate_value :: "config \<Rightarrow> store \<Rightarrow> jsval list" where
  "aggregate_value cfg \<sigma> = map (\<lambda>a. a_value (\<sigma> a)) (animatedValues cfg)"

text \<open>\<^verbatim>\<open>advance(dt, config, changes)\<close>: the returned \<open>active\<close>, the change sink
  (\<open>None\<close> is \<^verbatim>\<open>null\<close>) and the store.\<close>

definition advance ::
  "real \<Rightarrow> config \<Rightarrow> changes option \<Rightarrow> store \<Rightarrow> (bool \<times> changes option \<times> store) option" where
  "advance dt cfg chs \<sigma> =
     (case advance_loop dt cfg [0 ..< length (animatedValues cfg)] (False, False, \<sigma>) of
        None \<Rightarrow> None
      | Some (active, changed, \<sigma>') \<Rightarrow>
          Some (active,
                (case chs of
                   Some c \<Rightarrow>
                     Some (if changed then c @ [(key cfg, aggregate_value cfg \<sigma>')] else c)
                 | None \<Rightarrow> None),
                \<sigma>'))"

section \<open>The frame scheduler\<close>

text \<open>A \<^verbatim>\<open>Controller\<close>, as far as the loop reads it: its id, whether \<^verbatim>\<open>props.onFrame\<close> is
  set, and its configurations.\<close>

record controller =
  ctrl_id :: nat
  props_onFrame :: bool
  configs :: "config list"

type_synonym frame_update = "nat \<times> bool \<times> changes option"

text \<open>The \<^verbatim>\<open>FrameLoop\<close> object with the rest of the state its methods touch: the store of
  the animated values and the number of calls of \<^verbatim>\<open>requestFrame\<close> so far. The \<^verbatim>\<open>Map\<close> of the
  controllers keeps insertion order.\<close>

record frame_loop =
  controllers :: "(nat \<times> controller) list"
  loop_idle :: bool
  lastTime :: "real option"
  heap :: store
  requested :: nat

text \<open>\<^verbatim>\<open>Map.prototype.set\<close>: a present key keeps its place.\<close>

fun map_set :: "nat \<Rightarrow> controller \<Rightarrow> (nat \<times> controller) list \<Rightarrow> (nat \<times> controller) list" where
  "map_set k c [] = [(k, c)]"
| "map_set k c ((k', c') # m) = (if k' = k then (k, c) # m else (k', c') # map_set k c m)"

text \<open>\<^verbatim>\<open>Map.prototype.delete\<close>\<close>

definition map_delete :: "nat \<Rightarrow> (nat \<times> controller) list \<Rightarrow> (nat \<times> controller) list" where
  "map_delete k m = filter (\<lambda>e. fst e \<noteq> k) m"

text \<open>\<^verbatim>\<open>this.requestFrame(this.update)\<close>\<close>

definition requestFrame :: "frame_loop \<Rightarrow> frame_loop" where
  "requestFrame w = w\<lparr>requested := requested w + 1\<rparr>"

definition start :: "controller \<Rightarrow> frame_loop \<Rightarrow> frame_loop" where
  "start ctrl w =
     (let w1 = w\<lparr>controllers := map_set (ctrl_id ctrl) ctrl (controllers w)\<rparr> in
      if loop_idle w1 then requestFrame (w1\<lparr>loop_idle := False, lastTime := None\<rparr>)
      else w1)"

definition stop :: "controller \<Rightarrow> frame_loop \<Rightarrow> frame_loop" where
  "stop ctrl w = w\<lparr>controllers := map_delete (ctrl_id ctrl) (controllers w)\<rparr>"

text \<open>The loop over \<^verbatim>\<open>ctrl.configs\<close>: the controller's \<open>idle\<close> flag, the change sink and the
  store.\<close>

fun advance_configs ::
  "real \<Rightarrow> config list \<Rightarrow> bool \<times> changes option \<times> store \<Rightarrow> (bool \<times> changes option \<times> store) option" where
  "advance_configs dt [] acc = Some acc"
| "advance_configs dt (cfg # cfgs) (idl, chs, \<sigma>) =
     (if idle cfg then advance_configs dt cfgs (idl, chs, \<sigma>)
      else
        (case advance dt cfg chs \<sigma> of
           None \<Rightarrow> None
         | Some (active, chs', \<sigma>') \<Rightarrow>
             advance_configs dt cfgs (if active then False else idl, chs', \<sigma>')))"

text \<open>The loop over the controllers: the updates collected so far and the store.\<close>

fun advance_controllers ::
  "real \<Rightarrow> (nat \<times> controller) list \<Rightarrow> frame_update list \<times> store \<Rightarrow> (frame_update list \<times> store) option" where
  "advance_controllers dt [] acc = Some acc"
| "advance_controllers dt ((cid, ctrl) # rest) (updates, \<sigma>) =
     (case advance_configs dt (configs ctrl)
             (True, if props_onFrame ctrl then Some [] else None, \<sigma>) of
        None \<Rightarrow> None
      | Some (idl, chs, \<sigma>') \<Rightarrow>
          advance_controllers dt rest
            (if idl \<or> chs \<noteq> None then updates @ [(cid, idl, chs)] else updates, \<sigma>'))"

text \<open>The default \<^verbatim>\<open>onFrame\<close> of the constructor hands each update to the \<^verbatim>\<open>onFrame\<close> of its
  controller, if that is still registered. \<^verbatim>\<open>Controller.onFrame\<close> is code of the
  collaborator: \<open>ctrl_onFrame\<close> stands for it and may change the whole state.\<close>

definition default_onFrame ::
  "(controller \<Rightarrow> frame_update \<Rightarrow> frame_loop \<Rightarrow> frame_loop) \<Rightarrow>
     frame_update list \<Rightarrow> frame_loop \<Rightarrow> frame_loop" where
  "default_onFrame ctrl_onFrame updates w =
     fold (\<lambda>u w'. case map_of (controllers w') (fst u) of
                     Some ctrl \<Rightarrow> ctrl_onFrame ctrl u w'
                   | None \<Rightarrow> w')
          updates w"

text \<open>\<^verbatim>\<open>time = time !== void 0 ? time : performance.now()\<close>\<close>

definition resolve_time :: "real \<Rightarrow> real option \<Rightarrow> real" where
  "resolve_time now time = (case time of Some t \<Rightarrow> t | None \<Rightarrow> now)"

text \<open>The default \<^verbatim>\<open>update\<close> of the constructor. \<open>onFrame\<close> is the listener in use,
  \<open>now\<close> the reading of \<^verbatim>\<open>performance.now()\<close>, \<open>time\<close> the optional argument. The result
  is the returned boolean and the state.\<close>

definition update ::
  "(frame_update list \<Rightarrow> frame_loop \<Rightarrow> frame_loop) \<Rightarrow> real \<Rightarrow> real option \<Rightarrow> frame_loop \<Rightarrow>
     (bool \<times> frame_loop) option" where
  "update onFrame now time w =
     (if loop_idle w then Some (False, w)
      else
        (let t = resolve_time now time;
             lt = (case lastTime w of Some l \<Rightarrow> l | None \<Rightarrow> t);
             w1 = w\<lparr>lastTime := Some lt\<rparr>;
             dt = t - lt
         in
         if dt > 0 then
           (case advance_controllers (if dt > 64 then 64 else dt) (controllers w1) ([], heap w1) of
              None \<Rightarrow> None
            | Some (updates, \<sigma>') \<Rightarrow>
                (let w2 = (onFrame updates (w1\<lparr>heap := \<sigma>'\<rparr>))\<lparr>lastTime := Some t\<rparr> in
                 if controllers w2 = [] then Some (False, w2\<lparr>loop_idle := True\<rparr>)
                 else Some (True, requestFrame w2)))
         else Some (True, requestFrame w1)))"

section \<open>Repeated calls\<close>


section \<open>Concrete configurations and values\<close>

text \<open>A spring from 0 to 1 on one value at address 0, with the default tension and
  friction of the library and a sub-step of one time unit, and a value that has not
  moved yet. The examples below are variations of the two.\<close>

definition example_config :: config where
  "example_config =
     \<lparr>key = ''x'', idle = False, animatedValues = [0], toValues = [ToValue (Num 1)],
      fromValues = [Num 0], immediate = False, initialVelocity = VelShared 0,
      precision = None, duration = None, progress = 0, easing = (\<lambda>p. p),
      decay = DecayUnset, tension = 170, friction = 26, mass = 1, clamp = ClampUnset,
      w0 = 13, step = Some 1, method_name = ''euler''\<rparr>"

definition fresh_value :: animated_value where
  "fresh_value =
     \<lparr>a_value = Num 0, a_done = False, elapsedTime = 0, lastPosition = 0,
      lastVelocity = None, tempPosition = None, tempVelocity = None\<rparr>"

text \<open>A spring without tension, with a friction that stops the value in one sub-step.\<close>

definition slack_config :: config where
  "slack_config =
     example_config\<lparr>tension := 0, friction := 1000, initialVelocity := VelShared 5\<rparr>"

text \<open>A timed animation of 100 time units with the linear easing, a controller that
  owns it and listens to frames, and the frame loop as the constructor leaves it.\<close>

definition duration_config :: config where
  "duration_config = example_config\<lparr>duration := Some 100\<rparr>"

definition example_controller :: controller where
  "example_controller = \<lparr>ctrl_id = 7, props_onFrame = True, configs = [duration_config]\<rparr>"

definition initial_loop :: frame_loop where
  "initial_loop =
     \<lparr>controllers = [], loop_idle = True, lastTime = None, heap = (\<lambda>_. fresh_value),
      requested = 0\<rparr>"


text \<open>A timed animation of two values, the first of which has finished.\<close>

definition pair_config :: config where
  "pair_config =
     duration_config\<lparr>animatedValues := [0, 1], toValues := [ToValue (Num 1), ToValue (Num 1)],
                      fromValues := [Num 0, Num 0]\<rparr>"

definition half_done_store :: store where
  "half_done_store =
     (\<lambda>_. fresh_value)(0 := fresh_value\<lparr>a_value := Num 1, a_done := True, lastPosition := 1\<rparr>)"

text \<open>A timed animation of 10 time units whose target is the object at address 1, a
  store in which that object holds 1 and has not finished, the same animation flagged
  immediate, and a stiff spring.\<close>

definition trail_config :: config where
  "trail_config = duration_config\<lparr>toValues := [ToAnimated 1], duration := Some 10\<rparr>"

definition trail_store :: store where
  "trail_store = (\<lambda>_. fresh_value)(1 := fresh_value\<lparr>a_value := Num 1\<rparr>)"

definition immediate_trail :: config where
  "immediate_trail = trail_config\<lparr>immediate := True\<rparr>"

definition stiff_config :: config where
  "stiff_config = example_config\<lparr>tension := 1000000\<rparr>"




section \<open>The precision of the numeric path\<close>

text \<open>Updating the field \<open>precision\<close> changes nothing but \<open>precision_of\<close>.\<close>

lemma precision_update_basic:
  "config_step (cfg\<lparr>precision := p\<rparr>) = config_step cfg"
  "euler_step (cfg\<lparr>precision := p\<rparr>) = euler_step cfg"
  "verlet_step (cfg\<lparr>precision := p\<rparr>) = verlet_step cfg"
  "rk4_step (cfg\<lparr>precision := p\<rparr>) = rk4_step cfg"
  "analytical (cfg\<lparr>precision := p\<rparr>) = analytical cfg"
  "simple (cfg\<lparr>precision := p\<rparr>) = simple cfg"
  "decay_model (cfg\<lparr>precision := p\<rparr>) = decay_model cfg"
  "isBouncing (cfg\<lparr>precision := p\<rparr>) = isBouncing cfg"
  "v0_at (cfg\<lparr>precision := p\<rparr>) = v0_at cfg"
  "to_at (cfg\<lparr>precision := p\<rparr>) = to_at cfg"
  "from_at (cfg\<lparr>precision := p\<rparr>) = from_at cfg"
  "aggregate_value (cfg\<lparr>precision := p\<rparr>) = aggregate_value cfg"
  by (simp_all add: Let_def fun_eq_iff config_step_def euler_step_def verlet_step_def
      rk4_step_def analytical_def simple_def decay_model_def isBouncing_def v0_at_def
      to_at_def from_at_def aggregate_value_def)

lemma precision_update_models:
  "step_size (cfg\<lparr>precision := p\<rparr>) = step_size cfg"
  "duration_model (cfg\<lparr>precision := p\<rparr>) = duration_model cfg"
  "spring_settle (cfg\<lparr>precision := p\<rparr>) = spring_settle cfg"
  by (simp_all add: Let_def fun_eq_iff step_size_def duration_model_def spring_settle_def
      precision_update_basic split: option.splits)

lemma precision_update_steppers:
  "euler (cfg\<lparr>precision := p\<rparr>) = euler cfg"
  "verlet (cfg\<lparr>precision := p\<rparr>) = verlet cfg"
  "rk4 (cfg\<lparr>precision := p\<rparr>) = rk4 cfg"
  by (simp_all add: Let_def fun_eq_iff euler_def verlet_def rk4_def precision_update_basic
      precision_update_models split: option.splits)

lemma precision_update_integrate:
  "integrate (cfg\<lparr>precision := p\<rparr>) = integrate cfg"
  by (simp add: fun_eq_iff integrate_def Let_def precision_update_basic
      precision_update_steppers)

lemma precision_of_falsy:
  "precision_of (cfg\<lparr>precision := Some 0\<rparr>) to from = min 1 (\<bar>to - from\<bar> / 1000)"
  "precision_of (cfg\<lparr>precision := None\<rparr>) to from = min 1 (\<bar>to - from\<bar> / 1000)"
  by (simp_all add: precision_of_def)

lemma run_model_precision_zero:
  "run_model dt (cfg\<lparr>precision := Some 0\<rparr>) i animated from to =
   run_model dt (cfg\<lparr>precision := None\<rparr>) i animated from to"
  by (simp add: run_model_def precision_of_falsy precision_update_basic
      precision_update_models precision_update_integrate split: option.splits)

lemma advance_numeric_precision_zero:
  "advance_numeric dt (cfg\<lparr>precision := Some 0\<rparr>) i \<sigma> a tg f t =
   advance_numeric dt (cfg\<lparr>precision := None\<rparr>) i \<sigma> a tg f t"
  by (simp add: advance_numeric_def run_model_precision_zero)

lemma advance_value_precision_zero:
  "advance_value dt (cfg\<lparr>precision := Some 0\<rparr>) i \<sigma> =
   advance_value dt (cfg\<lparr>precision := None\<rparr>) i \<sigma>"
  by (simp add: advance_value_def advance_numeric_precision_zero precision_update_basic
      Let_def split: jsval.splits)

lemma advance_loop_precision_zero:
  "advance_loop dt (cfg\<lparr>precision := Some 0\<rparr>) is acc =
   advance_loop dt (cfg\<lparr>precision := None\<rparr>) is acc"
  by (induction "is" arbitrary: acc)
     (auto simp: advance_value_precision_zero split: option.splits)

text \<open>
  Claim C10. On the numeric path of \<open>advance\<close> a configured precision of 0 is falsy and
  counts as absent: the precision in effect is \<open>min 1 (\<bar>to - from\<bar> / 1000)\<close>, a call
  of \<open>advance\<close> with the precision 0 does exactly what the call with no precision does,
  and the threshold in effect is positive whenever \<open>to\<close> and \<open>from\<close> differ; the
  caller's request for a zero threshold is not honoured.
\<close>

theorem precision_zero_is_absent:
  "precision_of (cfg\<lparr>precision := Some 0\<rparr>) to from = min 1 (\<bar>to - from\<bar> / 1000) \<and>
   advance dt (cfg\<lparr>precision := Some 0\<rparr>) chs \<sigma> = advance dt (cfg\<lparr>precision := None\<rparr>) chs \<sigma> \<and>
   (to \<noteq> from \<longrightarrow> 0 < precision_of (cfg\<lparr>precision := Some 0\<rparr>) to from)"
  by (simp add: precision_of_falsy advance_def advance_loop_precision_zero
      precision_update_basic split: option.splits)



theorem precision_zero_is_absent_witness:
  "(1::real) \<noteq> 0 \<and>
   precision_of (example_config\<lparr>precision := Some 0\<rparr>) 1 0 = 1 / 1000 \<and>
   0 < precision_of (example_config\<lparr>precision := Some 0\<rparr>) 1 0"
  using precision_zero_is_absent [of example_config 1 0 1 None "\<lambda>_. fresh_value"]
  by simp

section \<open>The termination condition of the spring model\<close>

lemma run_model_spring:
  assumes "duration cfg = None" and "\<not> decay_on (decay cfg)"
    and "run_model dt cfg i animated from to = Some (mo, tp, tv)"
  obtains v0 p v where "v0_at cfg i = Some v0"
    and "integrate cfg dt animated v0 from to = Some (p, v, tp, tv)"
    and "mo = spring_settle cfg (precision_of cfg to from) from to p v"
  using assms
  by (auto simp: run_model_def split: option.splits)

lemma spring_settle_finished:
  "m_finished (spring_settle cfg prec from to p v) =
     ((isBouncing cfg from to p v \<and> m_velocity (spring_settle cfg prec from to p v) = 0) \<or>
      (\<bar>m_velocity (spring_settle cfg prec from to p v)\<bar> \<le> prec \<and>
       (tension cfg = 0 \<or> \<bar>to - p\<bar> \<le> prec)))"
  by (simp add: spring_settle_def Let_def)

lemma spring_settle_fields:
  "m_position (spring_settle cfg prec from to p v) = p"
  "m_to (spring_settle cfg prec from to p v) = to"
  "m_velocity (spring_settle cfg prec from to p v) =
     (if isBouncing cfg from to p v then - v * clamp_factor (clamp cfg) else v)"
  by (simp_all add: spring_settle_def Let_def)

lemma no_bounce_without_tension: "tension cfg = 0 \<Longrightarrow> \<not> isBouncing cfg from to p v"
  by (simp add: isBouncing_def)

text \<open>
  Claim C1. When the spring model runs on a numeric value, with \<open>p\<close> and \<open>v\<close> the
  position and velocity the integrator returns, the resulting velocity is \<open>v\<close>, or
  \<open>- v\<close> times the clamp factor when the bounce branch is taken, and \<open>finished\<close> holds
  exactly when the bounce branch was taken and the resulting velocity is 0, or the
  resulting velocity is within the precision and either the tension is 0 or the
  displacement \<open>\<bar>to - position\<bar>\<close> is within the precision. With tension 0 there is no
  bounce and \<open>finished\<close> is decided by the velocity alone.
\<close>

theorem spring_finished_iff:
  assumes "duration cfg = None" and "\<not> decay_on (decay cfg)"
    and "run_model dt cfg i animated from to = Some (mo, tp, tv)"
  shows "\<exists>v0 p v.
      v0_at cfg i = Some v0 \<and>
      integrate cfg dt animated v0 from to = Some (p, v, tp, tv) \<and>
      m_position mo = p \<and>
      m_velocity mo = (if isBouncing cfg from to p v then - v * clamp_factor (clamp cfg) else v) \<and>
      m_finished mo =
        ((isBouncing cfg from to p v \<and> m_velocity mo = 0) \<or>
         (\<bar>m_velocity mo\<bar> \<le> precision_of cfg to from \<and>
          (tension cfg = 0 \<or> \<bar>to - m_position mo\<bar> \<le> precision_of cfg to from))) \<and>
      (tension cfg = 0 \<longrightarrow>
         m_velocity mo = v \<and> m_finished mo = (\<bar>v\<bar> \<le> precision_of cfg to from))"
proof -
  from assms obtain v0 p v where v0: "v0_at cfg i = Some v0"
    and int: "integrate cfg dt animated v0 from to = Some (p, v, tp, tv)"
    and mo: "mo = spring_settle cfg (precision_of cfg to from) from to p v"
    by (rule run_model_spring)
  have fin: "m_finished mo =
        ((isBouncing cfg from to p v \<and> m_velocity mo = 0) \<or>
         (\<bar>m_velocity mo\<bar> \<le> precision_of cfg to from \<and>
          (tension cfg = 0 \<or> \<bar>to - m_position mo\<bar> \<le> precision_of cfg to from)))"
    unfolding mo spring_settle_fields(1) by (rule spring_settle_finished)
  have vel: "m_velocity mo = (if isBouncing cfg from to p v then - v * clamp_factor (clamp cfg) else v)"
    unfolding mo by (rule spring_settle_fields)
  have pos: "m_position mo = p"
    unfolding mo by (rule spring_settle_fields)
  have slack: "tension cfg = 0 \<longrightarrow>
         m_velocity mo = v \<and> m_finished mo = (\<bar>v\<bar> \<le> precision_of cfg to from)"
  proof
    assume t: "tension cfg = 0"
    then have nb: "\<not> isBouncing cfg from to p v" by (rule no_bounce_without_tension)
    from vel nb have "m_velocity mo = v" by simp
    with fin nb t show "m_velocity mo = v \<and> m_finished mo = (\<bar>v\<bar> \<le> precision_of cfg to from)"
      by simp
  qed
  from v0 int pos vel fin slack show ?thesis by blast
qed

theorem spring_finished_iff_witness:
  "duration slack_config = None \<and> \<not> decay_on (decay slack_config) \<and>
   tension slack_config = 0 \<and>
   run_model 1 slack_config 0 (fresh_value\<lparr>elapsedTime := 1\<rparr>) 0 1 =
     Some (\<lparr>m_position = 0, m_velocity = 0, m_finished = True, m_to = 1\<rparr>, None, None) \<and>
   (\<exists>v0 p v.
      integrate slack_config 1 (fresh_value\<lparr>elapsedTime := 1\<rparr>) v0 0 1 = Some (p, v, None, None) \<and>
      \<bar>v\<bar> \<le> precision_of slack_config 1 0)"
proof -
  have h1: "duration slack_config = None" and h2: "\<not> decay_on (decay slack_config)"
    and h0: "tension slack_config = 0"
    by (simp_all add: slack_config_def example_config_def decay_on_def)
  have h3: "run_model 1 slack_config 0 (fresh_value\<lparr>elapsedTime := 1\<rparr>) 0 1 =
     Some (\<lparr>m_position = 0, m_velocity = 0, m_finished = True, m_to = 1\<rparr>, None, None)"
    by (simp add: run_model_def slack_config_def example_config_def fresh_value_def v0_at_def
        decay_on_def integrate_def euler_def step_size_def config_step_def num_steps_def
        euler_step_def spring_settle_def isBouncing_def precision_of_def Let_def)
  from spring_finished_iff [OF h1 h2 h3] h0 obtain v0 p v where
    "integrate slack_config 1 (fresh_value\<lparr>elapsedTime := 1\<rparr>) v0 0 1 = Some (p, v, None, None)"
    "True = (\<bar>v\<bar> \<le> precision_of slack_config 1 0)"
    by auto
  with h0 h1 h2 h3 show ?thesis by blast
qed


section \<open>The scheduler\<close>

lemma map_delete_absent: "k \<notin> fst ` set m \<Longrightarrow> map_delete k m = m"
  by (induction m) (auto simp: map_delete_def)

text \<open>
  Claim C8. A call of \<open>update\<close> on an idle scheduler returns \<open>false\<close> and leaves the
  whole state as it is: no integration, no notification, no frame requested. A call of
  \<open>stop\<close> with a controller whose id is not registered leaves the state as it is, and
  \<open>stop\<close> never changes the idle flag. Neither call fails.
\<close>

theorem misuse_is_noop:
  "(loop_idle w \<longrightarrow> update onFrame now time w = Some (False, w)) \<and>
   (ctrl_id ctrl \<notin> fst ` set (controllers w) \<longrightarrow> stop ctrl w = w) \<and>
   loop_idle (stop ctrl w) = loop_idle w"
  by (simp add: update_def stop_def map_delete_absent)

theorem misuse_is_noop_witness:
  "loop_idle initial_loop \<and>
   update (\<lambda>us w. w) 0 (Some 5) initial_loop = Some (False, initial_loop) \<and>
   ctrl_id example_controller \<notin> fst ` set (controllers initial_loop) \<and>
   stop example_controller initial_loop = initial_loop"
  using misuse_is_noop [of initial_loop "\<lambda>us w. w" 0 "Some 5" example_controller]
  by (simp add: initial_loop_def)

lemma start_idle:
  "loop_idle w \<Longrightarrow>
     start c w = w\<lparr>controllers := map_set (ctrl_id c) c (controllers w), loop_idle := False,
                    lastTime := None, requested := requested w + 1\<rparr>"
  by (simp add: start_def requestFrame_def Let_def)

lemma start_busy:
  "\<not> loop_idle w \<Longrightarrow> start c w = w\<lparr>controllers := map_set (ctrl_id c) c (controllers w)\<rparr>"
  by (simp add: start_def Let_def)

lemma update_empty_registry:
  assumes "\<not> loop_idle w" and "controllers w = []" and "lastTime w = Some l"
    and "l < resolve_time now time"
  shows "update (default_onFrame h) now time w =
           Some (False, w\<lparr>loop_idle := True, lastTime := Some (resolve_time now time)\<rparr>)"
  using assms by (simp add: update_def default_onFrame_def Let_def)

lemma update_stale:
  assumes "\<not> loop_idle w" and "lastTime w = Some l" and "resolve_time now time \<le> l"
  shows "update onFrame now time w = Some (True, w\<lparr>requested := requested w + 1\<rparr>)"
  using assms by (simp add: update_def requestFrame_def Let_def)

lemma update_no_delta:
  assumes "\<not> loop_idle w" and "lastTime w = None"
  shows "update onFrame now time w =
           Some (True, w\<lparr>lastTime := Some (resolve_time now time), requested := requested w + 1\<rparr>)"
  using assms by (simp add: update_def requestFrame_def Let_def)


lemma started_stopped:
  "stop example_controller (start example_controller initial_loop) =
     initial_loop\<lparr>loop_idle := False, requested := 1\<rparr>"
  by (simp add: start_def stop_def requestFrame_def initial_loop_def example_controller_def
      map_delete_def Let_def)

text \<open>
  Claim C7, as the code has it. \<open>start\<close> on an idle scheduler registers the controller,
  sets idle to false, clears the last-tick timestamp and requests exactly one frame;
  \<open>start\<close> on a scheduler that is not idle only registers the controller. A call of
  \<open>update\<close> with an empty registry and a positive elapsed delta sets idle to true,
  returns \<open>false\<close> and requests no frame. A call of \<open>update\<close> whose elapsed delta is not
  positive, as it is right after \<open>start\<close>, when there is no last-tick timestamp and the
  delta is therefore 0, returns \<open>true\<close>, leaves idle false and requests one more frame,
  whatever the registry holds.
\<close>

theorem scheduler_lifecycle:
  "(loop_idle w \<longrightarrow>
      start c w = w\<lparr>controllers := map_set (ctrl_id c) c (controllers w), loop_idle := False,
                     lastTime := None, requested := requested w + 1\<rparr>) \<and>
   (\<not> loop_idle w \<longrightarrow>
      start c w = w\<lparr>controllers := map_set (ctrl_id c) c (controllers w)\<rparr>) \<and>
   (\<not> loop_idle w \<and> controllers w = [] \<and> lastTime w = Some l \<and> l < resolve_time now time \<longrightarrow>
      update (default_onFrame h) now time w =
        Some (False, w\<lparr>loop_idle := True, lastTime := Some (resolve_time now time)\<rparr>)) \<and>
   (\<not> loop_idle w \<and> lastTime w = None \<longrightarrow>
      update onFrame now time w =
        Some (True, w\<lparr>lastTime := Some (resolve_time now time), requested := requested w + 1\<rparr>)) \<and>
   (\<not> loop_idle w \<and> lastTime w = Some l \<and> resolve_time now time \<le> l \<longrightarrow>
      update onFrame now time w = Some (True, w\<lparr>requested := requested w + 1\<rparr>))"
  using start_idle [of w c] start_busy [of w c] update_empty_registry [of w l now time h]
    update_no_delta [of w onFrame now time] update_stale [of w l now time onFrame]
  by blast

theorem scheduler_lifecycle_witness:
  "loop_idle initial_loop \<and>
   start example_controller initial_loop =
     initial_loop\<lparr>controllers := [(7, example_controller)], loop_idle := False,
                   requested := 1\<rparr> \<and>
   update (default_onFrame (\<lambda>c u w. w)) 0 (Some 21)
       (initial_loop\<lparr>loop_idle := False, requested := 2, lastTime := Some 5\<rparr>) =
     Some (False, initial_loop\<lparr>requested := 2, lastTime := Some 21\<rparr>) \<and>
   update (default_onFrame (\<lambda>c u w. w)) 0 (Some 5)
       (initial_loop\<lparr>loop_idle := False, requested := 1\<rparr>) =
     Some (True, initial_loop\<lparr>loop_idle := False, requested := 2, lastTime := Some 5\<rparr>)"
  using scheduler_lifecycle [of initial_loop example_controller 0 0 None "\<lambda>c u w. w" "\<lambda>us w. w"]
    scheduler_lifecycle [of "initial_loop\<lparr>loop_idle := False, requested := 2, lastTime := Some 5\<rparr>"
       example_controller 5 0 "Some 21" "\<lambda>c u w. w" "\<lambda>us w. w"]
    scheduler_lifecycle [of "initial_loop\<lparr>loop_idle := False, requested := 1\<rparr>"
       example_controller 0 0 "Some 5" "\<lambda>c u w. w" "default_onFrame (\<lambda>c u w. w)"]
  by (simp add: initial_loop_def example_controller_def resolve_time_def)

text \<open>
  The claim as the specification states it fails on the first tick: after \<open>start\<close> and
  \<open>stop\<close> of the only controller the registry is empty, and the next \<open>update\<close> returns
  \<open>true\<close>, leaves idle false and requests a second frame.
\<close>

theorem lifecycle_first_tick_counterexample:
  "controllers (stop example_controller (start example_controller initial_loop)) = [] \<and>
   update (default_onFrame (\<lambda>c u w. w)) 0 (Some 5)
       (stop example_controller (start example_controller initial_loop)) =
     Some (True, initial_loop\<lparr>loop_idle := False, requested := 2, lastTime := Some 5\<rparr>)"
  unfolding started_stopped
  by (simp add: update_def requestFrame_def resolve_time_def initial_loop_def Let_def)






section \<open>What a call of \<open>advance\<close> leaves alone\<close>

text \<open>A pass of the loop writes at most the object at the address it visits.\<close>

lemma advance_numeric_frame:
  assumes "advance_numeric dt cfg i \<sigma> b target f t = Some (act, chg, \<sigma>')" and "a \<noteq> b"
  shows "\<sigma>' a = \<sigma> a"
  using assms by (auto simp: advance_numeric_def Let_def split: option.splits)

lemma advance_value_frame:
  assumes "advance_value dt cfg i \<sigma> = Some (act, chg, \<sigma>')" and "a \<noteq> animatedValues cfg ! i"
  shows "\<sigma>' a = \<sigma> a"
  using assms
  by (auto simp: advance_value_def Let_def split: if_splits jsval.splits
      dest: advance_numeric_frame)

lemma advance_value_done:
  assumes "advance_value dt cfg i \<sigma> = Some (act, chg, \<sigma>')" and "a_done (\<sigma> a)"
  shows "\<sigma>' a = \<sigma> a"
proof (cases "a = animatedValues cfg ! i")
  case True
  with assms show ?thesis by (simp add: advance_value_def Let_def)
next
  case False
  with assms(1) show ?thesis by (rule advance_value_frame)
qed

lemma advance_loop_done:
  assumes "advance_loop dt cfg is (active, changed, \<sigma>) = Some (active', changed', \<sigma>')"
    and "a_done (\<sigma> a)"
  shows "\<sigma>' a = \<sigma> a"
  using assms
proof (induction "is" arbitrary: active changed \<sigma>)
  case Nil
  then show ?case by simp
next
  case (Cons i "is")
  from Cons.prems(1) obtain act chg \<sigma>1 where
    step: "advance_value dt cfg i \<sigma> = Some (act, chg, \<sigma>1)" and
    rest: "advance_loop dt cfg is (active \<or> act, changed \<or> chg, \<sigma>1) = Some (active', changed', \<sigma>')"
    by (auto split: option.splits)
  from step Cons.prems(2) have eq: "\<sigma>1 a = \<sigma> a" by (rule advance_value_done)
  with Cons.prems(2) have "a_done (\<sigma>1 a)" by simp
  with rest have "\<sigma>' a = \<sigma>1 a" by (rule Cons.IH)
  with eq show ?case by simp
qed

text \<open>
  Claim C9. A call of \<open>advance\<close> leaves every object whose done flag is set as it is:
  its value, position, velocity, elapsed time and every other field. This holds for the
  constituents of the configuration and for every other object of the store.
\<close>

theorem done_values_untouched:
  assumes "advance dt cfg chs \<sigma> = Some (active, chs', \<sigma>')" and "a_done (\<sigma> a)"
  shows "\<sigma>' a = \<sigma> a"
  using assms
  by (auto simp: advance_def split: option.splits dest: advance_loop_done)

lemma pair_advance:
  "advance 10 pair_config None half_done_store =
     Some (True, None, half_done_store
       (1 := \<lparr>a_value = Num (1 / 10), a_done = False, elapsedTime = 10, lastPosition = 1 / 10,
              lastVelocity = Some (1 / 100), tempPosition = None, tempVelocity = None\<rparr>))"
  by (simp add: advance_def pair_config_def half_done_store_def duration_config_def
      example_config_def fresh_value_def advance_value_def advance_numeric_def run_model_def
      duration_model_def min1_ratio_def to_at_def from_at_def target_of_def resolve_to_def
      is_string_def target_pending_def setValue_def upt_rec Let_def)

theorem done_values_untouched_witness:
  "a_done (half_done_store 0) \<and>
   advance 10 pair_config None half_done_store =
     Some (True, None, half_done_store
       (1 := \<lparr>a_value = Num (1 / 10), a_done = False, elapsedTime = 10, lastPosition = 1 / 10,
              lastVelocity = Some (1 / 100), tempPosition = None, tempVelocity = None\<rparr>)) \<and>
   (half_done_store
       (1 := \<lparr>a_value = Num (1 / 10), a_done = False, elapsedTime = 10, lastPosition = 1 / 10,
              lastVelocity = Some (1 / 100), tempPosition = None, tempVelocity = None\<rparr>)) 0 =
     half_done_store 0"
proof -
  have d: "a_done (half_done_store 0)"
    by (simp add: half_done_store_def fresh_value_def)
  from done_values_untouched [OF pair_advance d] d pair_advance show ?thesis
    by simp
qed


section \<open>Trails and the final snap\<close>

lemma is_string_Num [simp]: "\<not> is_string (Num x)"
  by (simp add: is_string_def)








lemmas example_defs =
  example_config_def fresh_value_def slack_config_def duration_config_def trail_config_def
  trail_store_def immediate_trail_def stiff_config_def

lemmas advance_defs =
  advance_def advance_value_def advance_numeric_def run_model_def duration_model_def
  min1_ratio_def to_at_def from_at_def v0_at_def target_of_def resolve_to_def is_string_def
  target_pending_def setValue_def aggregate_value_def decay_on_def precision_of_def

lemmas euler_defs =
  integrate_def euler_def step_size_def config_step_def num_steps_def euler_step_def
  spring_settle_def isBouncing_def clamp_factor_def







text \<open>
  The snap is guarded by \<^verbatim>\<open>animated.value !== to\<close>, a test of the value stored by the
  previous call and not of the new position. A spring that lands exactly on its target
  with velocity left is therefore not snapped when it finishes on the next call: the
  stiff spring from 0 to 1 reaches 1 with velocity 1, overshoots to 1.974, bounces, and
  is marked done with the value 1.974.
\<close>

lemma stiff_first_call:
  "advance 1 stiff_config None (\<lambda>_. fresh_value) =
     Some (True, None, (\<lambda>_. fresh_value)
       (0 := \<lparr>a_value = Num 1, a_done = False, elapsedTime = 1, lastPosition = 1,
              lastVelocity = Some 1, tempPosition = None, tempVelocity = None\<rparr>))"
  by (simp add: example_defs advance_defs euler_defs Let_def)

lemma stiff_second_call:
  "advance 1 stiff_config None ((\<lambda>_. fresh_value)
       (0 := \<lparr>a_value = Num 1, a_done = False, elapsedTime = 1, lastPosition = 1,
              lastVelocity = Some 1, tempPosition = None, tempVelocity = None\<rparr>)) =
     Some (False, None, (\<lambda>_. fresh_value)
       (0 := \<lparr>a_value = Num (987 / 500), a_done = True, elapsedTime = 2,
              lastPosition = 987 / 500, lastVelocity = Some 0, tempPosition = None,
              tempVelocity = None\<rparr>))"
  by (simp add: example_defs advance_defs euler_defs Let_def)


section \<open>The decay model\<close>










section \<open>The duration model\<close>


















section \<open>Settling under repeated calls\<close>






























text \<open>
  The claim as the specification states it covers every spring with positive tension,
  friction and mass and every method. The Euler method with a coarse sub-step is not
  stable for every such spring: on the spring below each call doubles the size of
  \<open>20 * velocity + (position - to)\<close>, so the velocity and the displacement are never both
  within the precision, and with the clamp switched off no bounce ends the animation.
  The value is never done.
\<close>








text \<open>
  The \<^verbatim>\<open>verlet()\<close> of this revision subtracts a constant term from the velocity in every
  sub-step. A sub-step leaves the value at rest at \<open>to - 1 / step\<close>, not at \<open>to\<close>, and a
  value at rest on \<open>to\<close> is pushed away from it.
\<close>

lemma verlet_rest_point:
  assumes "stp \<noteq> 0" and "mass cfg \<noteq> 0" and "1 + (friction cfg * stp) / 2 \<noteq> 0"
  shows "verlet_step cfg stp to (to - 1 / stp, 0) = (to - 1 / stp, 0)"
    and "verlet_step cfg stp to (to, 0) =
           (to - stp * (tension cfg / mass cfg / (1 + (friction cfg * stp) / 2)),
            - (tension cfg / mass cfg / (1 + (friction cfg * stp) / 2)))"
  using assms by (simp_all add: verlet_step_def Let_def field_simps)


end
